theory Spec2Isabelle
  imports Complex_Main
begin

section \<open>Vectors and the numpy operations used by \<open>plane.py\<close>\<close>

text \<open>
  The source computes with numpy arrays of float64. The embedding idealises float64 as
  \<^typ>\<open>real\<close>: a 3D vector is a triple of reals, a 2D point a pair. Rounding, overflow
  and underflow are therefore not part of the model; the one place where the source's
  floating point result is not a number (a division by a zero norm, which numpy answers
  with nan and a warning, not with an exception) is written out in \<open>Plane_init\<close>.
\<close>

type_synonym vec3 = "real \<times> real \<times> real"
type_synonym vec2 = "real \<times> real"

text \<open>\<open>a[i]\<close> and \<open>a[i] = x\<close> on an array of three components, \<open>i\<close> in 0, 1, 2.\<close>

fun vget :: "vec3 \<Rightarrow> nat \<Rightarrow> real" where
  "vget (x, y, z) i = (if i = 0 then x else if i = 1 then y else z)"

fun vset :: "vec3 \<Rightarrow> nat \<Rightarrow> real \<Rightarrow> vec3" where
  "vset (x, y, z) i a = (if i = 0 then (a, y, z) else if i = 1 then (x, a, z) else (x, y, a))"

definition np_zeros3 :: vec3 where
  "np_zeros3 = (0, 0, 0)"

fun vsub :: "vec3 \<Rightarrow> vec3 \<Rightarrow> vec3" where
  "vsub (a1, a2, a3) (b1, b2, b3) = (a1 - b1, a2 - b2, a3 - b3)"

fun vdiv :: "vec3 \<Rightarrow> real \<Rightarrow> vec3" where
  "vdiv (a1, a2, a3) r = (a1 / r, a2 / r, a3 / r)"

fun np_dot :: "vec3 \<Rightarrow> vec3 \<Rightarrow> real" where
  "np_dot (a1, a2, a3) (b1, b2, b3) = a1 * b1 + a2 * b2 + a3 * b3"

fun np_cross :: "vec3 \<Rightarrow> vec3 \<Rightarrow> vec3" where
  "np_cross (a1, a2, a3) (b1, b2, b3) =
     (a2 * b3 - a3 * b2, a3 * b1 - a1 * b3, a1 * b2 - a2 * b1)"

fun linalg_norm :: "vec3 \<Rightarrow> real" where
  "linalg_norm (a1, a2, a3) = sqrt (a1 * a1 + a2 * a2 + a3 * a3)"

text \<open>
  \<open>np.isclose(a, b)\<close> with numpy's default tolerances \<open>rtol = 1e-05\<close> and
  \<open>atol = 1e-08\<close>: \<open>|a - b| <= atol + rtol * |b|\<close>.
\<close>

definition np_isclose :: "real \<Rightarrow> real \<Rightarrow> bool" where
  "np_isclose a b = (\<bar>a - b\<bar> \<le> 1 / 10 ^ 8 + 1 / 10 ^ 5 * \<bar>b\<bar>)"

section \<open>The class \<open>Plane\<close>\<close>

text \<open>The exceptions the constructors raise.\<close>

datatype py_error = AssertionError | IndexError

text \<open>
  The attributes of a \<open>Plane\<close> object, \<open>self.center\<close>, \<open>self.u\<close>, \<open>self.v\<close>,
  \<open>self.normal\<close> and \<open>self.M\<close>. The 3x2 matrix \<open>self.M\<close> is kept as its two columns.
\<close>

record Plane =
  self_center :: vec3
  self_u :: vec3
  self_v :: vec3
  self_normal :: vec3
  self_M :: "vec3 \<times> vec3"

text \<open>
  \<open>Plane.__init__\<close>. When \<open>u\<close> or \<open>v\<close> has norm zero, float64 division gives nan
  components, the dot product is nan, \<open>np.isclose(nan, 0)\<close> is false and the assertion
  fails. Otherwise the assertion compares the dot product of the normalised vectors with 0.
  The matrix is stacked from the arguments \<open>u\<close> and \<open>v\<close> as they were passed.
\<close>

definition Plane_init :: "vec3 \<Rightarrow> vec3 \<Rightarrow> vec3 \<Rightarrow> py_error + Plane" where
  "Plane_init origin u v =
     (if linalg_norm u = 0 \<or> linalg_norm v = 0 then Inl AssertionError
      else
        let su = vdiv u (linalg_norm u);
            sv = vdiv v (linalg_norm v)
        in if np_isclose (np_dot su sv) 0
           then Inr \<lparr> self_center = origin, self_u = su, self_v = sv,
                      self_normal = np_cross su sv, self_M = (u, v) \<rparr>
           else Inl AssertionError)"

text \<open>
  \<open>Plane.from_norm\<close>. \<open>np.where(norm != 0)[0]\<close> is the ascending list of the indices
  of the non-zero components; taking its element 0 raises \<open>IndexError\<close> when it is empty.
\<close>

definition from_norm :: "vec3 \<Rightarrow> vec3 \<Rightarrow> py_error + Plane" where
  "from_norm origin nrm =
     (case filter (\<lambda>i. vget nrm i \<noteq> 0) [0 ..< 3] of
        [] \<Rightarrow> Inl IndexError
      | m # _ \<Rightarrow>
          let n = (m + 1) mod 3;
              u0 = vset np_zeros3 n (vget nrm m);
              u1 = vset u0 m (- vget nrm n);
              nrm1 = vdiv nrm (linalg_norm nrm);
              u2 = vdiv u1 (linalg_norm u1);
              v = np_cross nrm1 u2
          in Plane_init origin u2 v)"

text \<open>\<open>Plane.P3toP2\<close>: \<open>(ps - self.center) @ self.M\<close>, row by row.\<close>

definition P3toP2 :: "Plane \<Rightarrow> vec3 list \<Rightarrow> vec2 list" where
  "P3toP2 self ps =
     map (\<lambda>p. (np_dot (vsub p (self_center self)) (fst (self_M self)),
                np_dot (vsub p (self_center self)) (snd (self_M self)))) ps"

text \<open>\<open>Plane.centerOfMass\<close>.\<close>

definition centerOfMass :: "Plane \<Rightarrow> vec3" where
  "centerOfMass self = self_center self"

section \<open>Actors, meshes and the vedo operations\<close>

text \<open>
  A \<open>brainrender\<close> actor as far as \<open>plane.py\<close> reads it: its \<open>name\<close>, its \<open>mesh\<close>,
  the attribute \<open>_mesh\<close> (here \<open>umesh\<close>), which an actor has or has not, and the six
  numbers \<open>actor.bounds()\<close> returns (min and max along x, y and z).
\<close>

record 'mesh Actor =
  name :: string
  mesh :: 'mesh
  umesh :: "'mesh option"
  bounds :: "real \<times> real \<times> real \<times> real \<times> real \<times> real"

text \<open>
  The operations of vedo and vtk on meshes are not part of the repository; they are
  parameters of the model. \<open>cutter_output mesh origin normal\<close> is the output of the
  \<open>vtkPolyDataPlaneCutter\<close> set up in \<open>intersect_with_plane\<close>, as a vedo mesh;
  \<open>points\<close> is \<open>Mesh.points()\<close>; \<open>splitByConnectivity\<close> returns the connected pieces
  in the order vedo lists them; \<open>join_reset\<close> is \<open>Mesh.join(reset=True)\<close>.
\<close>

record 'mesh vedo =
  cutter_output :: "'mesh \<Rightarrow> vec3 \<Rightarrow> vec3 \<Rightarrow> 'mesh"
  points :: "'mesh \<Rightarrow> vec3 list"
  splitByConnectivity :: "'mesh \<Rightarrow> 'mesh list"
  join_reset :: "'mesh \<Rightarrow> 'mesh"

text \<open>
  \<open>intersect_with_plane\<close>: the cutter's output; lighting, line width and the name
  \<open>PlaneIntersection\<close> set on it are display attributes and are not modelled.
\<close>

definition intersect_with_plane :: "'mesh vedo \<Rightarrow> 'mesh \<Rightarrow> vec3 \<Rightarrow> vec3 \<Rightarrow> 'mesh" where
  "intersect_with_plane vd msh origin normal = cutter_output vd msh origin normal"

text \<open>\<open>Plane.intersectWith\<close>.\<close>

definition intersectWith :: "'mesh vedo \<Rightarrow> Plane \<Rightarrow> 'mesh \<Rightarrow> 'mesh" where
  "intersectWith vd self msh =
     intersect_with_plane vd msh (self_center self) (self_normal self)"

text \<open>
  \<open>Plane.to_mesh\<close>: the arguments with which \<open>vd.Plane\<close> and \<open>Actor\<close> are called, and
  the \<open>width\<close> attribute set afterwards. The actor's name, a formatted string of two
  numpy arrays, is not modelled.
\<close>

record plane_mesh =
  pm_pos :: vec3
  pm_normal :: vec3
  pm_sx :: real
  pm_sy :: real
  pm_br_class :: string
  pm_width :: real

definition to_mesh :: "Plane \<Rightarrow> 'mesh Actor \<Rightarrow> plane_mesh" where
  "to_mesh self actor =
     (case bounds actor of (b0, b1, b2, b3, b4, b5) \<Rightarrow>
        let length0 = max (b1 - b0) (max (b3 - b2) (b5 - b4));
            length1 = length0 + length0 / 3
        in \<lparr> pm_pos = self_center self, pm_normal = self_normal self,
             pm_sx = length1, pm_sy = length1,
             pm_br_class = ''plane_mesh'', pm_width = length1 \<rparr>)"

section \<open>\<open>Plane.get_projections\<close>\<close>

text \<open>The decimal numeral Python's f-string writes for a non-negative \<open>int\<close>.\<close>

function str_nat :: "nat \<Rightarrow> string" where
  "str_nat n =
     (if n < 10 then [''0123456789'' ! n]
      else str_nat (n div 10) @ [''0123456789'' ! (n mod 10)])"
  by pat_completeness auto
termination
  by (relation "measure (\<lambda>n. n)") auto

declare str_nat.simps [simp del]

text \<open>The key \<open>actor.name + f"_segment_{piece_n}"\<close>.\<close>

definition segment_key :: "string \<Rightarrow> nat \<Rightarrow> string" where
  "segment_key actor_name piece_n = actor_name @ ''_segment_'' @ str_nat piece_n"

text \<open>
  The inner loop, \<open>for piece_n, piece in enumerate(pieces)\<close>: each piece is joined,
  its points are projected, and the result is stored under the piece's key.
\<close>

definition project_pieces ::
  "'mesh vedo \<Rightarrow> Plane \<Rightarrow> string \<Rightarrow> (string \<rightharpoonup> vec2 list) \<Rightarrow> 'mesh list \<Rightarrow> (string \<rightharpoonup> vec2 list)" where
  "project_pieces vd self actor_name projected pieces =
     foldl (\<lambda>proj (piece_n, piece).
              proj(segment_key actor_name piece_n \<mapsto> P3toP2 self (points vd (join_reset vd piece))))
       projected (enumerate 0 pieces)"

text \<open>
  The first half of the outer loop's body: the mesh that is cut is \<open>actor._mesh\<close> when
  the actor has that attribute and \<open>actor.mesh\<close> otherwise.
\<close>

definition actor_intersection :: "'mesh vedo \<Rightarrow> Plane \<Rightarrow> 'mesh Actor \<Rightarrow> 'mesh" where
  "actor_intersection vd self actor =
     (let msh = (case umesh actor of Some m \<Rightarrow> m | None \<Rightarrow> mesh actor)
      in intersectWith vd self msh)"

text \<open>
  The body of the outer loop for one actor: an intersection with no points takes the
  \<open>continue\<close>, any other is split into its pieces, which the inner loop stores.
\<close>

definition project_actor ::
  "'mesh vedo \<Rightarrow> Plane \<Rightarrow> (string \<rightharpoonup> vec2 list) \<Rightarrow> 'mesh Actor \<Rightarrow> (string \<rightharpoonup> vec2 list)" where
  "project_actor vd self projected actor =
     (let intersection = actor_intersection vd self actor
      in if length (points vd intersection) = 0 then projected
         else project_pieces vd self (name actor) projected
                (splitByConnectivity vd intersection))"

definition get_projections ::
  "'mesh vedo \<Rightarrow> Plane \<Rightarrow> 'mesh Actor list \<Rightarrow> (string \<rightharpoonup> vec2 list)" where
  "get_projections vd self actors = foldl (project_actor vd self) Map.empty actors"

text \<open>
  The methods of \<open>Plane\<close> as calls on an object. None of \<open>to_mesh\<close>,
  \<open>centerOfMass\<close>, \<open>P3toP2\<close>, \<open>intersectWith\<close> and \<open>get_projections\<close> assigns an
  attribute of \<open>self\<close>, and the arrays behind \<open>self.u\<close>, \<open>self.v\<close> and
  \<open>self.normal\<close> are created by the constructor and handed to no caller:
  \<open>self_after\<close> is the object after a call.
\<close>

datatype 'mesh method_call =
    Call_to_mesh "'mesh Actor"
  | Call_centerOfMass
  | Call_P3toP2 "vec3 list"
  | Call_intersectWith 'mesh
  | Call_get_projections "'mesh Actor list"

fun self_after :: "Plane \<Rightarrow> 'mesh method_call \<Rightarrow> Plane" where
  "self_after self (Call_to_mesh actor) = self"
| "self_after self Call_centerOfMass = self"
| "self_after self (Call_P3toP2 ps) = self"
| "self_after self (Call_intersectWith msh) = self"
| "self_after self (Call_get_projections actors) = self"

section \<open>Example inputs\<close>

text \<open>
  A small mesh provider on which the model can be run: a mesh is a list of polylines,
  the cut keeps the polylines that lie in the plane, every polyline is a connected piece
  of its own, and joining changes nothing.
\<close>

definition polyline_vedo :: "vec3 list list vedo" where
  "polyline_vedo =
     \<lparr> cutter_output = (\<lambda>msh origin normal.
          filter (\<lambda>line. list_all (\<lambda>p. np_dot (vsub p origin) normal = 0) line) msh),
       points = concat,
       splitByConnectivity = map (\<lambda>line. [line]),
       join_reset = (\<lambda>piece. piece) \<rparr>"

text \<open>
  The same provider with a split that lists the pieces last found first: what a split
  that sorts the pieces by area and reverses the sorted list returns for polylines, whose
  areas are all zero.
\<close>

definition last_first_vedo :: "vec3 list list vedo" where
  "last_first_vedo =
     \<lparr> cutter_output = (\<lambda>msh origin normal.
          filter (\<lambda>line. list_all (\<lambda>p. np_dot (vsub p origin) normal = 0) line) msh),
       points = concat,
       splitByConnectivity = (\<lambda>msh. rev (map (\<lambda>line. [line]) msh)),
       join_reset = (\<lambda>piece. piece) \<rparr>"

definition polyline_actor :: "string \<Rightarrow> vec3 list list \<Rightarrow> vec3 list list Actor" where
  "polyline_actor nm msh = \<lparr> name = nm, mesh = msh, umesh = None, bounds = (0, 1, 0, 1, 0, 1) \<rparr>"

text \<open>The plane \<open>z = 0\<close> through the origin, as \<open>from_norm\<close> builds it from the normal (0, 0, 1).\<close>

definition xy_plane :: Plane where
  "xy_plane = \<lparr> self_center = (0, 0, 0), self_u = (1, 0, 0), self_v = (0, 1, 0),
                 self_normal = (0, 0, 1), self_M = ((1, 0, 0), (0, 1, 0)) \<rparr>"

section \<open>Vector algebra\<close>

lemma linalg_norm_nonneg: "0 \<le> linalg_norm a"
  by (cases a) simp

lemma linalg_norm_sq: "(linalg_norm a)\<^sup>2 = np_dot a a"
  by (cases a) (simp add: power2_eq_square[symmetric] sum_power2_ge_zero add_nonneg_nonneg)

lemma linalg_norm_zero_iff: "linalg_norm a = 0 \<longleftrightarrow> a = (0, 0, 0)"
proof (cases a)
  case (fields a1 a2 a3)
  have "a1 * a1 + a2 * a2 + a3 * a3 = 0 \<longleftrightarrow> a1 = 0 \<and> a2 = 0 \<and> a3 = 0"
    using sum_squares_eq_zero_iff[of a1 a2]
    by (smt (verit) mult_eq_0_iff zero_le_square)
  then show ?thesis using fields by simp
qed

lemma np_dot_commute: "np_dot a b = np_dot b a"
  by (cases a; cases b) simp

lemma np_dot_vdiv: "np_dot (vdiv a r) (vdiv b s) = np_dot a b / (r * s)"
  by (cases a; cases b) (simp add: add_divide_distrib)

lemma vdiv_one: "vdiv a 1 = a"
  by (cases a) simp

lemma linalg_norm_vdiv: "0 < r \<Longrightarrow> linalg_norm (vdiv a r) = linalg_norm a / r"
proof -
  assume r: "0 < r"
  obtain a1 a2 a3 where a: "a = (a1, a2, a3)" by (cases a)
  have "a1 / r * (a1 / r) + a2 / r * (a2 / r) + a3 / r * (a3 / r)
        = (a1 * a1 + a2 * a2 + a3 * a3) / r\<^sup>2"
    by (simp add: power2_eq_square add_divide_distrib)
  then show ?thesis using r a
    by (simp add: real_sqrt_divide)
qed

lemma linalg_norm_normalised:
  "linalg_norm a \<noteq> 0 \<Longrightarrow> linalg_norm (vdiv a (linalg_norm a)) = 1"
  using linalg_norm_nonneg[of a] by (simp add: linalg_norm_vdiv)

lemma np_dot_cross_left: "np_dot a (np_cross a b) = 0"
  by (cases a; cases b) (simp add: algebra_simps)

lemma np_dot_cross_right: "np_dot b (np_cross a b) = 0"
  by (cases a; cases b) (simp add: algebra_simps)

lemma np_cross_lagrange:
  "np_dot (np_cross a b) (np_cross a b) = np_dot a a * np_dot b b - (np_dot a b)\<^sup>2"
  by (cases a; cases b) (simp add: algebra_simps power2_eq_square)

lemma np_cross_bac_cab:
  assumes "np_dot a a = 1" and "np_dot a b = 0"
  shows "np_cross a (np_cross b a) = b"
proof -
  obtain a1 a2 a3 where a: "a = (a1, a2, a3)" by (cases a)
  obtain b1 b2 b3 where b: "b = (b1, b2, b3)" by (cases b)
  have aa: "a1 * a1 + a2 * a2 + a3 * a3 = 1" and ab: "a1 * b1 + a2 * b2 + a3 * b3 = 0"
    using assms a b by simp_all
  have "a2 * (b1 * a2 - b2 * a1) - a3 * (b3 * a1 - b1 * a3)
        = b1 * (a1 * a1 + a2 * a2 + a3 * a3) - a1 * (a1 * b1 + a2 * b2 + a3 * b3)"
    by (simp add: algebra_simps)
  moreover have "a3 * (b2 * a3 - b3 * a2) - a1 * (b1 * a2 - b2 * a1)
        = b2 * (a1 * a1 + a2 * a2 + a3 * a3) - a2 * (a1 * b1 + a2 * b2 + a3 * b3)"
    by (simp add: algebra_simps)
  moreover have "a1 * (b3 * a1 - b1 * a3) - a2 * (b2 * a3 - b3 * a2)
        = b3 * (a1 * a1 + a2 * a2 + a3 * a3) - a3 * (a1 * b1 + a2 * b2 + a3 * b3)"
    by (simp add: algebra_simps)
  ultimately show ?thesis
    unfolding a b np_cross.simps aa ab by simp
qed

lemma np_cross_vdiv_left: "np_cross (vdiv a r) b = vdiv (np_cross a b) r"
  by (cases a; cases b) (simp add: diff_divide_distrib)

lemma linalg_norm_cross_unit:
  assumes "linalg_norm b = 1" and "np_dot a b = 0"
  shows "linalg_norm (np_cross a b) = linalg_norm a"
proof -
  have "np_dot b b = 1" using assms(1) linalg_norm_sq[of b] by simp
  then have "(linalg_norm (np_cross a b))\<^sup>2 = (linalg_norm a)\<^sup>2"
    using assms(2) by (simp add: linalg_norm_sq np_cross_lagrange)
  then show ?thesis
    using linalg_norm_nonneg[of a] linalg_norm_nonneg[of "np_cross a b"]
    by (simp add: power2_eq_iff_nonneg)
qed

lemma sqrt_25: "sqrt 25 = 5"
  by (rule real_sqrt_unique) simp_all

section \<open>The constructor \<open>Plane.__init__\<close>\<close>

lemma np_isclose_zero: "np_isclose a 0 = (\<bar>a\<bar> \<le> 1 / 10 ^ 8)"
  by (simp add: np_isclose_def)

lemma Plane_init_Inr:
  "Plane_init origin u0 v0 = Inr p \<Longrightarrow>
     linalg_norm u0 \<noteq> 0 \<and> linalg_norm v0 \<noteq> 0 \<and>
     np_isclose (np_dot (vdiv u0 (linalg_norm u0)) (vdiv v0 (linalg_norm v0))) 0 \<and>
     p = \<lparr> self_center = origin, self_u = vdiv u0 (linalg_norm u0),
           self_v = vdiv v0 (linalg_norm v0),
           self_normal = np_cross (vdiv u0 (linalg_norm u0)) (vdiv v0 (linalg_norm v0)),
           self_M = (u0, v0) \<rparr>"
  by (auto simp: Plane_init_def Let_def split: if_splits)

text \<open>
  The constructor succeeds exactly when both arguments are non-zero and the dot product
  of the normalised arguments is within \<open>1e-8\<close> of zero, the absolute tolerance of
  \<open>np.isclose\<close>.
\<close>

lemma Plane_init_succeeds_iff:
  "(\<exists>p. Plane_init origin u0 v0 = Inr p) \<longleftrightarrow>
     u0 \<noteq> (0, 0, 0) \<and> v0 \<noteq> (0, 0, 0) \<and>
     \<bar>np_dot (vdiv u0 (linalg_norm u0)) (vdiv v0 (linalg_norm v0))\<bar> \<le> 1 / 10 ^ 8"
  by (simp add: Plane_init_def Let_def np_isclose_zero linalg_norm_zero_iff)

lemma Plane_init_invariant:
  assumes "Plane_init origin u0 v0 = Inr p"
  shows "linalg_norm (self_u p) = 1" "linalg_norm (self_v p) = 1"
    "\<bar>np_dot (self_u p) (self_v p)\<bar> \<le> 1 / 10 ^ 8"
    "self_normal p = np_cross (self_u p) (self_v p)"
    "np_dot (self_u p) (self_normal p) = 0"
    "np_dot (self_v p) (self_normal p) = 0"
    "(linalg_norm (self_normal p))\<^sup>2 = 1 - (np_dot (self_u p) (self_v p))\<^sup>2"
proof -
  note h = Plane_init_Inr[OF assms]
  from h show a: "linalg_norm (self_u p) = 1" by (simp add: linalg_norm_normalised)
  from h show b: "linalg_norm (self_v p) = 1" by (simp add: linalg_norm_normalised)
  from h show "\<bar>np_dot (self_u p) (self_v p)\<bar> \<le> 1 / 10 ^ 8" by (simp add: np_isclose_zero)
  from h show n: "self_normal p = np_cross (self_u p) (self_v p)" by simp
  show "np_dot (self_u p) (self_normal p) = 0" unfolding n by (rule np_dot_cross_left)
  show "np_dot (self_v p) (self_normal p) = 0" unfolding n by (rule np_dot_cross_right)
  have "np_dot (self_u p) (self_u p) = 1" "np_dot (self_v p) (self_v p) = 1"
    using a b linalg_norm_sq[of "self_u p"] linalg_norm_sq[of "self_v p"] by simp_all
  then show "(linalg_norm (self_normal p))\<^sup>2 = 1 - (np_dot (self_u p) (self_v p))\<^sup>2"
    unfolding n by (simp add: linalg_norm_sq np_cross_lagrange)
qed

lemma Plane_init_orthonormal:
  assumes u: "linalg_norm u0 = 1" and v: "linalg_norm v0 = 1" and d: "np_dot u0 v0 = 0"
  shows "Plane_init origin u0 v0 =
           Inr \<lparr> self_center = origin, self_u = u0, self_v = v0,
                 self_normal = np_cross u0 v0, self_M = (u0, v0) \<rparr>"
  using assms by (simp add: Plane_init_def vdiv_one np_isclose_def)

text \<open>What \<open>P3toP2\<close> computes on a constructed plane, in terms of the constructor's arguments.\<close>

lemma P3toP2_of_Plane_init:
  "Plane_init origin u0 v0 = Inr p \<Longrightarrow>
   self_M p = (u0, v0) \<and>
   P3toP2 p ps = map (\<lambda>q. (np_dot (vsub q origin) u0, np_dot (vsub q origin) v0)) ps"
  by (auto simp: P3toP2_def dest!: Plane_init_Inr)

text \<open>
  When the matrix columns are orthonormal, as they are on every plane \<open>from_norm\<close>
  returns, the point \<open>center + a * u + b * v\<close> projects to \<open>(a, b)\<close>.
\<close>

lemma P3toP2_roundtrip:
  assumes "linalg_norm (u1, u2, u3) = 1" and "linalg_norm (v1, v2, v3) = 1"
    and "np_dot (u1, u2, u3) (v1, v2, v3) = 0"
    and "self_M p = ((u1, u2, u3), (v1, v2, v3))" and "self_center p = (c1, c2, c3)"
  shows "P3toP2 p [(c1 + a * u1 + b * v1, c2 + a * u2 + b * v2, c3 + a * u3 + b * v3)] = [(a, b)]"
proof -
  have uu: "u1 * u1 + u2 * u2 + u3 * u3 = 1" and vv: "v1 * v1 + v2 * v2 + v3 * v3 = 1"
    using assms(1,2) linalg_norm_sq[of "(u1, u2, u3)"] linalg_norm_sq[of "(v1, v2, v3)"]
    by simp_all
  have uv: "u1 * v1 + u2 * v2 + u3 * v3 = 0" using assms(3) by simp
  have "(a * u1 + b * v1) * u1 + (a * u2 + b * v2) * u2 + (a * u3 + b * v3) * u3
          = a * (u1 * u1 + u2 * u2 + u3 * u3) + b * (u1 * v1 + u2 * v2 + u3 * v3)"
    by (simp add: algebra_simps)
  then have x: "(a * u1 + b * v1) * u1 + (a * u2 + b * v2) * u2 + (a * u3 + b * v3) * u3 = a"
    unfolding uu uv by simp
  have "(a * u1 + b * v1) * v1 + (a * u2 + b * v2) * v2 + (a * u3 + b * v3) * v3
          = a * (u1 * v1 + u2 * v2 + u3 * v3) + b * (v1 * v1 + v2 * v2 + v3 * v3)"
    by (simp add: algebra_simps)
  then have y: "(a * u1 + b * v1) * v1 + (a * u2 + b * v2) * v2 + (a * u3 + b * v3) * v3 = b"
    unfolding vv uv by simp
  show ?thesis using x y by (simp add: P3toP2_def assms(4,5))
qed

text \<open>
  Claim C1 says that the stored matrix has the unit axes \<open>self.u\<close> and \<open>self.v\<close> as its
  columns, so that the point \<open>origin + a * u + b * v\<close> projects to \<open>(a, b)\<close> also when
  the constructor was given vectors that are not of unit length. The constructor stacks
  the matrix from its arguments, not from the normalised attributes: built from
  \<open>u = (2, 0, 0)\<close> and \<open>v = (0, 1, 0)\<close> at the origin, the plane has the unit axes
  \<open>(1, 0, 0)\<close> and \<open>(0, 1, 0)\<close> and the matrix columns \<open>(2, 0, 0)\<close> and \<open>(0, 1, 0)\<close>,
  and the point \<open>origin + 1 * self.u + 0 * self.v = (1, 0, 0)\<close> projects to \<open>(2, 0)\<close>.
\<close>

theorem P3toP2_uses_unnormalised_axes:
  "Plane_init (0, 0, 0) (2, 0, 0) (0, 1, 0) =
     Inr \<lparr> self_center = (0, 0, 0), self_u = (1, 0, 0), self_v = (0, 1, 0),
           self_normal = (0, 0, 1), self_M = ((2, 0, 0), (0, 1, 0)) \<rparr>
   \<and> P3toP2 \<lparr> self_center = (0, 0, 0), self_u = (1, 0, 0), self_v = (0, 1, 0),
              self_normal = (0, 0, 1), self_M = ((2, 0, 0), (0, 1, 0)) \<rparr> [(1, 0, 0)] = [(2, 0)]"
  by (simp add: Plane_init_def Let_def np_isclose_def P3toP2_def)

text \<open>
  Claim C2: the constructor fails whenever the dot product of the normalised \<open>u\<close> and
  \<open>v\<close> exceeds \<open>1e-6\<close> in absolute value. The failure is the \<open>AssertionError\<close> of the
  \<open>assert\<close>; the assertion itself is stricter and already fails beyond \<open>1e-8\<close>
  (\<open>Plane_init_succeeds_iff\<close>).
\<close>

theorem Plane_init_rejects_non_orthogonal:
  assumes "1 / 10 ^ 6 < \<bar>np_dot (vdiv u0 (linalg_norm u0)) (vdiv v0 (linalg_norm v0))\<bar>"
  shows "Plane_init origin u0 v0 = Inl AssertionError"
  using assms by (simp add: Plane_init_def Let_def np_isclose_def)

text \<open>The instance named by the claim: \<open>u = v = (1, 0, 0)\<close>, at any origin.\<close>

theorem Plane_init_rejects_non_orthogonal_witness:
  "1 / 10 ^ 6 < \<bar>np_dot (vdiv (1, 0, 0) (linalg_norm (1, 0, 0))) (vdiv (1, 0, 0) (linalg_norm (1, 0, 0)))\<bar>
   \<and> (\<forall>origin. Plane_init origin (1, 0, 0) (1, 0, 0) = Inl AssertionError)"
  using Plane_init_rejects_non_orthogonal[of "(1, 0, 0)" "(1, 0, 0)"] by simp

section \<open>The constructor \<open>Plane.from_norm\<close>\<close>

text \<open>
  Claim C3: \<open>from_norm\<close> fails on the zero normal. No component is non-zero, the index
  list is empty and reading its first element raises \<open>IndexError\<close>.
\<close>

theorem from_norm_zero_normal_fails:
  "from_norm origin (0, 0, 0) = Inl IndexError"
  by (simp add: from_norm_def upt_rec)

lemma from_norm_is_init:
  "from_norm origin nrm = Inr p \<Longrightarrow> \<exists>u0 v0. Plane_init origin u0 v0 = Inr p"
  by (simp add: from_norm_def Let_def split: list.splits del: split_paired_Ex) blast

lemma from_norm_basis:
  assumes u: "linalg_norm u1 \<noteq> 0" and n: "linalg_norm nrm \<noteq> 0" and d: "np_dot u1 nrm = 0"
  defines "u2 \<equiv> vdiv u1 (linalg_norm u1)" and "n1 \<equiv> vdiv nrm (linalg_norm nrm)"
  shows "Plane_init origin u2 (np_cross n1 u2) =
           Inr \<lparr> self_center = origin, self_u = u2, self_v = np_cross n1 u2,
                 self_normal = n1, self_M = (u2, np_cross n1 u2) \<rparr>"
proof -
  have u2: "linalg_norm u2 = 1" and n1: "linalg_norm n1 = 1"
    using u n by (simp_all add: u2_def n1_def linalg_norm_normalised)
  have d2: "np_dot u2 n1 = 0" "np_dot n1 u2 = 0"
    using d by (simp_all add: u2_def n1_def np_dot_vdiv np_dot_commute)
  have uu: "np_dot u2 u2 = 1" and nn: "np_dot n1 n1 = 1"
    using u2 n1 linalg_norm_sq[of u2] linalg_norm_sq[of n1] by simp_all
  have "(linalg_norm (np_cross n1 u2))\<^sup>2 = 1"
    by (simp add: linalg_norm_sq np_cross_lagrange uu nn d2)
  then have v: "linalg_norm (np_cross n1 u2) = 1"
    using linalg_norm_nonneg[of "np_cross n1 u2"] by (simp add: power2_eq_1_iff)
  have c: "np_cross u2 (np_cross n1 u2) = n1"
    by (rule np_cross_bac_cab[OF uu d2(1)])
  show ?thesis
    using Plane_init_orthonormal[OF u2 v np_dot_cross_right, of origin] by (simp add: c)
qed

text \<open>The three branches of \<open>from_norm\<close>, by the index of the first non-zero component.\<close>

lemma from_norm_m0:
  "x \<noteq> 0 \<Longrightarrow> from_norm origin (x, y, z) =
     Plane_init origin (vdiv (- y, x, 0) (linalg_norm (- y, x, 0)))
       (np_cross (vdiv (x, y, z) (linalg_norm (x, y, z))) (vdiv (- y, x, 0) (linalg_norm (- y, x, 0))))"
  by (simp add: from_norm_def upt_rec Let_def np_zeros3_def)

lemma from_norm_m1:
  "y \<noteq> 0 \<Longrightarrow> from_norm origin (0, y, z) =
     Plane_init origin (vdiv (0, - z, y) (linalg_norm (0, - z, y)))
       (np_cross (vdiv (0, y, z) (linalg_norm (0, y, z))) (vdiv (0, - z, y) (linalg_norm (0, - z, y))))"
  by (simp add: from_norm_def upt_rec Let_def np_zeros3_def)

lemma from_norm_m2:
  "z \<noteq> 0 \<Longrightarrow> from_norm origin (0, 0, z) =
     Plane_init origin (vdiv (z, 0, 0) (linalg_norm (z, 0, 0)))
       (np_cross (vdiv (0, 0, z) (linalg_norm (0, 0, z))) (vdiv (z, 0, 0) (linalg_norm (z, 0, 0))))"
  by (simp add: from_norm_def upt_rec Let_def np_zeros3_def)

lemma from_norm_v_normalised:
  assumes "linalg_norm u1 \<noteq> 0" and "np_dot u1 nrm = 0"
  shows "np_cross (vdiv nrm (linalg_norm nrm)) (vdiv u1 (linalg_norm u1))
         = vdiv (np_cross nrm (vdiv u1 (linalg_norm u1)))
             (linalg_norm (np_cross nrm (vdiv u1 (linalg_norm u1))))"
proof -
  let ?u = "vdiv u1 (linalg_norm u1)"
  have u: "linalg_norm ?u = 1" using assms(1) by (rule linalg_norm_normalised)
  have "np_dot nrm ?u = 0"
    using assms(2) np_dot_vdiv[of nrm 1 u1 "linalg_norm u1"]
    by (simp add: vdiv_one np_dot_commute)
  from linalg_norm_cross_unit[OF u this] show ?thesis
    by (simp add: np_cross_vdiv_left)
qed

lemma from_norm_derives_basis:
  assumes m: "m < 3" "vget nrm m \<noteq> 0" "\<forall>i<m. vget nrm i = 0"
    and n: "n = (m + 1) mod 3"
    and u1: "vget u1 n = vget nrm m" "vget u1 m = - vget nrm n" "vget u1 ((m + 2) mod 3) = 0"
  shows "from_norm origin nrm =
           Inr \<lparr> self_center = origin,
                 self_u = vdiv u1 (linalg_norm u1),
                 self_v = np_cross (vdiv nrm (linalg_norm nrm)) (vdiv u1 (linalg_norm u1)),
                 self_normal = vdiv nrm (linalg_norm nrm),
                 self_M = (vdiv u1 (linalg_norm u1),
                           np_cross (vdiv nrm (linalg_norm nrm)) (vdiv u1 (linalg_norm u1))) \<rparr>
         \<and> np_dot u1 nrm = 0
         \<and> np_dot (vdiv u1 (linalg_norm u1)) nrm = 0
         \<and> linalg_norm u1 \<noteq> 0"
proof -
  obtain x y z where nrm: "nrm = (x, y, z)" by (cases nrm)
  obtain a b c where u: "u1 = (a, b, c)" by (cases u1)
  from m(1) consider "m = 0" | "m = 1" | "m = 2" by linarith
  then have k: "linalg_norm u1 \<noteq> 0 \<and> linalg_norm nrm \<noteq> 0 \<and> np_dot u1 nrm = 0 \<and>
     from_norm origin nrm =
       Plane_init origin (vdiv u1 (linalg_norm u1))
         (np_cross (vdiv nrm (linalg_norm nrm)) (vdiv u1 (linalg_norm u1)))"
  proof cases
    case 1
    with m n u1 have x: "x \<noteq> 0" and e: "u1 = (- y, x, 0)" by (simp_all add: nrm u)
    have "linalg_norm u1 \<noteq> 0" "linalg_norm nrm \<noteq> 0"
      using x by (simp_all only: linalg_norm_zero_iff e nrm) simp_all
    moreover have "np_dot u1 nrm = 0" by (simp add: e nrm)
    ultimately show ?thesis unfolding e nrm using from_norm_m0[OF x] by blast
  next
    case 2
    with m n u1 have y: "y \<noteq> 0" and x: "x = 0" and e: "u1 = (0, - z, y)"
      by (simp_all add: nrm u)
    have "linalg_norm u1 \<noteq> 0" "linalg_norm nrm \<noteq> 0"
      using y by (simp_all only: linalg_norm_zero_iff e nrm) simp_all
    moreover have "np_dot u1 nrm = 0" by (simp add: e nrm x)
    ultimately show ?thesis unfolding e nrm x using from_norm_m1[OF y] by blast
  next
    case 3
    from m(3) have "vget nrm 0 = 0" "vget nrm 1 = 0" unfolding 3 by simp_all
    with 3 m n u1 have z: "z \<noteq> 0" and x: "x = 0" and y: "y = 0" and e: "u1 = (z, 0, 0)"
      by (simp_all add: nrm u)
    have "linalg_norm u1 \<noteq> 0" "linalg_norm nrm \<noteq> 0"
      using z by (simp_all only: linalg_norm_zero_iff e nrm) simp_all
    moreover have "np_dot u1 nrm = 0" by (simp add: e nrm x y)
    ultimately show ?thesis unfolding e nrm x y using from_norm_m2[OF z] by blast
  qed
  then have d: "np_dot (vdiv u1 (linalg_norm u1)) nrm = 0"
    using np_dot_vdiv[of u1 "linalg_norm u1" nrm 1] by (simp add: vdiv_one)
  from k d show ?thesis
    by (simp add: from_norm_basis)
qed

text \<open>
  Claim C5: for a non-zero normal, let \<open>m\<close> be the lowest index of a non-zero component,
  \<open>n = (m + 1) mod 3\<close>, and \<open>u1\<close> the vector with \<open>u1[n] = normal[m]\<close>,
  \<open>u1[m] = -normal[n]\<close> and the remaining component zero. Then \<open>from_norm\<close> succeeds,
  the plane's \<open>u\<close> is \<open>u1\<close> normalised and its \<open>v\<close> is the cross product of the
  normal with \<open>u\<close>, the normal being the normalised one, as it is at that line of the
  code; this \<open>v\<close> is also the cross product of the normal as given with \<open>u\<close>, brought
  to unit length by the constructor. \<open>u1\<close> and \<open>u\<close> are exactly orthogonal to the
  normal, and two calls with the same normal give the same \<open>u\<close> and \<open>v\<close>, whatever
  the origins.
\<close>

theorem from_norm_basis_construction:
  assumes "m < 3" "vget nrm m \<noteq> 0" "\<forall>i<m. vget nrm i = 0"
    and "n = (m + 1) mod 3"
    and "vget u1 n = vget nrm m" "vget u1 m = - vget nrm n" "vget u1 ((m + 2) mod 3) = 0"
  shows "from_norm origin nrm =
           Inr \<lparr> self_center = origin,
                 self_u = vdiv u1 (linalg_norm u1),
                 self_v = np_cross (vdiv nrm (linalg_norm nrm)) (vdiv u1 (linalg_norm u1)),
                 self_normal = vdiv nrm (linalg_norm nrm),
                 self_M = (vdiv u1 (linalg_norm u1),
                           np_cross (vdiv nrm (linalg_norm nrm)) (vdiv u1 (linalg_norm u1))) \<rparr>
         \<and> np_cross (vdiv nrm (linalg_norm nrm)) (vdiv u1 (linalg_norm u1))
             = vdiv (np_cross nrm (vdiv u1 (linalg_norm u1)))
                 (linalg_norm (np_cross nrm (vdiv u1 (linalg_norm u1))))
         \<and> np_dot u1 nrm = 0
         \<and> np_dot (vdiv u1 (linalg_norm u1)) nrm = 0
         \<and> (\<forall>o1 o2 p1 p2. from_norm o1 nrm = Inr p1 \<and> from_norm o2 nrm = Inr p2
               \<longrightarrow> self_u p1 = self_u p2 \<and> self_v p1 = self_v p2)"
proof -
  note e = from_norm_derives_basis[OF assms]
  have "self_u p1 = self_u p2 \<and> self_v p1 = self_v p2"
    if "from_norm o1 nrm = Inr p1 \<and> from_norm o2 nrm = Inr p2" for o1 o2 p1 p2
    using that e[of o1] e[of o2] by auto
  moreover have "np_cross (vdiv nrm (linalg_norm nrm)) (vdiv u1 (linalg_norm u1))
             = vdiv (np_cross nrm (vdiv u1 (linalg_norm u1)))
                 (linalg_norm (np_cross nrm (vdiv u1 (linalg_norm u1))))"
    using e[of origin] by (intro from_norm_v_normalised) simp_all
  ultimately show ?thesis using e[of origin] by blast
qed

text \<open>
  The normal \<open>(0, 3, 4)\<close>: \<open>m = 1\<close>, \<open>n = 2\<close>, \<open>u1 = (0, -4, 3)\<close>, both of length 5.
\<close>

theorem from_norm_basis_construction_witness:
  "from_norm (1, 2, 3) (0, 3, 4) =
     Inr \<lparr> self_center = (1, 2, 3), self_u = (0, - 4 / 5, 3 / 5), self_v = (1, 0, 0),
           self_normal = (0, 3 / 5, 4 / 5), self_M = ((0, - 4 / 5, 3 / 5), (1, 0, 0)) \<rparr>
   \<and> np_dot (0, - 4, 3) (0, 3, 4) = 0"
  using from_norm_basis_construction[of 1 "(0, 3, 4)" 2 "(0, - 4, 3)" "(1, 2, 3)"]
  by (simp add: sqrt_25)

section \<open>The invariant of a plane\<close>

lemma foldl_self_after: "foldl self_after p calls = p"
proof (induction calls)
  case Nil
  then show ?case by simp
next
  case (Cons c calls)
  then show ?case by (cases c) simp_all
qed

text \<open>
  Claim C4: a plane returned by either constructor, and the same object after any
  sequence of method calls, has unit \<open>u\<close> and \<open>v\<close>, a dot product of \<open>u\<close> and \<open>v\<close>
  within the assertion's tolerance of zero, the normal \<open>u \<times> v\<close>, and a normal
  orthogonal to \<open>u\<close> and to \<open>v\<close>; the normal's length is \<open>sqrt (1 - (u \<cdot> v)\<^sup>2)\<close>,
  within \<open>1e-16\<close> of 1. Lengths and orthogonality to the normal are exact in real
  arithmetic, where float64 rounds.
\<close>

theorem Plane_orthonormal_invariant:
  assumes "Plane_init origin u0 v0 = Inr p \<or> from_norm origin nrm = Inr p"
    and "q = foldl self_after p calls"
  shows "linalg_norm (self_u q) = 1 \<and> linalg_norm (self_v q) = 1
       \<and> \<bar>np_dot (self_u q) (self_v q)\<bar> \<le> 1 / 10 ^ 8
       \<and> self_normal q = np_cross (self_u q) (self_v q)
       \<and> np_dot (self_u q) (self_normal q) = 0
       \<and> np_dot (self_v q) (self_normal q) = 0
       \<and> (linalg_norm (self_normal q))\<^sup>2 = 1 - (np_dot (self_u q) (self_v q))\<^sup>2
       \<and> \<bar>linalg_norm (self_normal q) - 1\<bar> \<le> 1 / 10 ^ 16"
proof -
  from assms(1) obtain a b where i: "Plane_init origin a b = Inr p"
    using from_norm_is_init by blast
  have q: "q = p" using assms(2) by (simp add: foldl_self_after)
  note f = Plane_init_invariant[OF i]
  let ?d = "np_dot (self_u p) (self_v p)"
  have d: "?d\<^sup>2 \<le> 1 / 10 ^ 16"
  proof -
    have "?d\<^sup>2 = \<bar>?d\<bar> * \<bar>?d\<bar>" by (simp add: power2_eq_square)
    also have "\<dots> \<le> (1 / 10 ^ 8) * (1 / 10 ^ 8)"
      using f(3) by (intro mult_mono) simp_all
    finally show ?thesis by simp
  qed
  let ?n = "linalg_norm (self_normal p)"
  have n0: "0 \<le> ?n" by (rule linalg_norm_nonneg)
  have n2: "?n\<^sup>2 = 1 - ?d\<^sup>2" by (rule f(7))
  have "?n\<^sup>2 \<le> 1" using n2 by simp
  then have n1: "?n \<le> 1" using power2_le_imp_le[of ?n 1] by simp
  have "0 \<le> (1 - ?n) * ?n" using n0 n1 by simp
  then have "1 - ?n \<le> (1 - ?n) * (1 + ?n)" by (simp add: algebra_simps)
  also have "\<dots> = 1 - ?n\<^sup>2" by (simp add: algebra_simps power2_eq_square)
  also have "\<dots> \<le> 1 / 10 ^ 16" using n2 d by simp
  finally have "\<bar>?n - 1\<bar> \<le> 1 / 10 ^ 16" using n1 by simp
  with f show ?thesis unfolding q by simp
qed

text \<open>A plane built from vectors of length 2, after two method calls.\<close>

theorem Plane_orthonormal_invariant_witness:
  "\<exists>p. Plane_init (1, 2, 3) (2, 0, 0) (0, 2, 0) = Inr p
     \<and> linalg_norm (self_u p) = 1 \<and> linalg_norm (self_v p) = 1
     \<and> \<bar>np_dot (self_u p) (self_v p)\<bar> \<le> 1 / 10 ^ 8
     \<and> self_normal p = np_cross (self_u p) (self_v p)
     \<and> np_dot (self_u p) (self_normal p) = 0
     \<and> np_dot (self_v p) (self_normal p) = 0"
proof -
  have i: "Plane_init (1, 2, 3) (2, 0, 0) (0, 2, 0) =
             Inr \<lparr> self_center = (1, 2, 3), self_u = (1, 0, 0), self_v = (0, 1, 0),
                   self_normal = (0, 0, 1), self_M = ((2, 0, 0), (0, 2, 0)) \<rparr>"
    by (simp add: Plane_init_def Let_def np_isclose_def)
  from Plane_orthonormal_invariant[OF disjI1, OF i,
      of _ "[Call_centerOfMass, Call_P3toP2 [(0, 0, 0)]]"] i
  show ?thesis by (simp add: foldl_self_after)
qed

section \<open>\<open>Plane.to_mesh\<close>\<close>

text \<open>
  Claim C8: for every bounding box the side length is the largest of the three extents
  times 4/3 (the code adds a third of the largest extent to it), and the quad is
  requested from \<open>vd.Plane\<close> with that length as both \<open>sx\<close> and \<open>sy\<close>, at the plane's
  center and with the plane's normal.
\<close>

theorem to_mesh_square_quad:
  "to_mesh self \<lparr> name = nm, mesh = msh, umesh = um, bounds = (x0, x1, y0, y1, z0, z1) \<rparr> =
     \<lparr> pm_pos = self_center self, pm_normal = self_normal self,
       pm_sx = max (max (x1 - x0) (y1 - y0)) (z1 - z0) * 4 / 3,
       pm_sy = max (max (x1 - x0) (y1 - y0)) (z1 - z0) * 4 / 3,
       pm_br_class = ''plane_mesh'',
       pm_width = max (max (x1 - x0) (y1 - y0)) (z1 - z0) * 4 / 3 \<rparr>"
  by (simp add: to_mesh_def Let_def max.assoc)

section \<open>Piece keys\<close>

text \<open>The decimal numeral of a number determines the number and contains no underscore.\<close>

lemma str_nat_ne: "str_nat n \<noteq> []"
  by (subst str_nat.simps) simp

lemma digit_not_underscore: "d < 10 \<Longrightarrow> ''0123456789'' ! d \<noteq> CHR ''_''"
proof -
  assume "d < 10"
  then have "d \<in> {0,1,2,3,4,5,6,7,8,9}" by auto
  then show ?thesis by auto
qed

lemma digit_inj: "d < 10 \<Longrightarrow> e < 10 \<Longrightarrow> ''0123456789'' ! d = ''0123456789'' ! e \<Longrightarrow> d = e"
proof -
  assume "d < 10" "e < 10" and eq: "''0123456789'' ! d = ''0123456789'' ! e"
  have "distinct ''0123456789''" by simp
  then show ?thesis using eq \<open>d < 10\<close> \<open>e < 10\<close>
    by (simp add: nth_eq_iff_index_eq)
qed

lemma str_nat_no_underscore: "CHR ''_'' \<notin> set (str_nat n)"
proof (induction n rule: str_nat.induct)
  case (1 n)
  show ?case
  proof (cases "n < 10")
    case True
    then show ?thesis using digit_not_underscore[of n] by (subst str_nat.simps) auto
  next
    case False
    then show ?thesis using 1 digit_not_underscore[of "n mod 10"]
      by (subst str_nat.simps) auto
  qed
qed

lemma str_nat_digit: "n < 10 \<Longrightarrow> str_nat n = [''0123456789'' ! n]"
  by (subst str_nat.simps) simp

lemma str_nat_step:
  "\<not> n < 10 \<Longrightarrow> str_nat n = str_nat (n div 10) @ [''0123456789'' ! (n mod 10)]"
  by (subst str_nat.simps) simp

lemma str_nat_long: "\<not> n < 10 \<Longrightarrow> 2 \<le> length (str_nat n)"
proof -
  assume n: "\<not> n < 10"
  have "Suc 0 \<le> length (str_nat (n div 10))"
    using str_nat_ne[of "n div 10"] by (cases "str_nat (n div 10)") simp_all
  then show ?thesis unfolding str_nat_step[OF n] by simp
qed

lemma str_nat_inj: "str_nat n = str_nat k \<Longrightarrow> n = k"
proof (induction n arbitrary: k rule: str_nat.induct)
  case (1 n)
  have len: "length (str_nat n) = length (str_nat k)" using 1(2) by simp
  have one: "length (str_nat j) = 1" if "j < 10" for j
    using that by (simp add: str_nat_digit)
  show ?case
  proof (cases "n < 10")
    case True
    have k: "k < 10"
    proof (rule ccontr)
      assume "\<not> k < 10"
      from str_nat_long[OF this] one[OF True] len show False by simp
    qed
    from 1(2) have "''0123456789'' ! n = ''0123456789'' ! k"
      unfolding str_nat_digit[OF True] str_nat_digit[OF k] by simp
    then show ?thesis using digit_inj True k by blast
  next
    case False
    have k: "\<not> k < 10"
    proof
      assume "k < 10"
      from str_nat_long[OF False] one[OF \<open>k < 10\<close>] len show False by simp
    qed
    have "str_nat (n div 10) @ [''0123456789'' ! (n mod 10)]
          = str_nat (k div 10) @ [''0123456789'' ! (k mod 10)]"
      using 1(2) unfolding str_nat_step[OF False] str_nat_step[OF k] .
    then have a: "str_nat (n div 10) = str_nat (k div 10)"
      and b: "''0123456789'' ! (n mod 10) = ''0123456789'' ! (k mod 10)"
      by simp_all
    from 1(1)[OF False a] have "n div 10 = k div 10" .
    moreover from b have "n mod 10 = k mod 10" using digit_inj[of "n mod 10" "k mod 10"] by simp
    ultimately show ?thesis by (metis div_mult_mod_eq)
  qed
qed

lemma str_nat_examples: "str_nat 0 = ''0'' \<and> str_nat 7 = ''7'' \<and> str_nat 12 = ''12'' \<and> str_nat 305 = ''305''"
  by (simp add: str_nat.simps)

text \<open>A key determines the actor's name and the piece's index.\<close>

lemma takeWhile_sep: "c \<notin> set ds \<Longrightarrow> takeWhile (\<lambda>x. x \<noteq> c) (ds @ c # xs) = ds"
  by (induction ds) auto

lemma append_sep_inj:
  assumes "xs @ c # ds = ys @ c # es" and "c \<notin> set ds" and "c \<notin> set es"
  shows "xs = ys \<and> ds = es"
proof -
  have "takeWhile (\<lambda>x. x \<noteq> c) (rev (xs @ c # ds)) = rev ds"
    using assms(2) takeWhile_sep[of c "rev ds" "rev xs"] by simp
  moreover have "takeWhile (\<lambda>x. x \<noteq> c) (rev (ys @ c # es)) = rev es"
    using assms(3) takeWhile_sep[of c "rev es" "rev ys"] by simp
  ultimately have "ds = es" using assms(1) by simp
  with assms(1) show ?thesis by simp
qed

lemma segment_key_inj:
  assumes "segment_key a n = segment_key b k"
  shows "a = b \<and> n = k"
proof -
  have "(a @ ''_segment'') @ CHR ''_'' # str_nat n = (b @ ''_segment'') @ CHR ''_'' # str_nat k"
    using assms by (simp add: segment_key_def)
  from append_sep_inj[OF this str_nat_no_underscore str_nat_no_underscore]
  have "a @ ''_segment'' = b @ ''_segment''" and "str_nat n = str_nat k" by blast+
  then show ?thesis using str_nat_inj[of n k] by simp
qed

section \<open>The loops of \<open>get_projections\<close>\<close>

text \<open>
  The inner loop stores piece \<open>j\<close> under the key of index \<open>j\<close> and leaves every other
  key as it was.
\<close>

lemma foldl_pieces_other:
  "(\<And>j. j < length ps \<Longrightarrow> key \<noteq> segment_key nm (i + j)) \<Longrightarrow>
   foldl (\<lambda>proj (piece_n, piece). proj(segment_key nm piece_n \<mapsto> f piece)) proj0 (enumerate i ps) key
     = proj0 key"
proof (induction ps arbitrary: i proj0)
  case Nil
  then show ?case by simp
next
  case (Cons p ps)
  have "\<And>j. j < length ps \<Longrightarrow> key \<noteq> segment_key nm (Suc i + j)"
    using Cons.prems[of "Suc j" for j] by simp
  from Cons.IH[OF this] Cons.prems[of 0] show ?case by simp
qed

lemma foldl_pieces_nth:
  "j < length ps \<Longrightarrow>
   foldl (\<lambda>proj (piece_n, piece). proj(segment_key nm piece_n \<mapsto> f piece)) proj0 (enumerate i ps)
     (segment_key nm (i + j)) = Some (f (ps ! j))"
proof (induction ps arbitrary: i j proj0)
  case Nil
  then show ?case by simp
next
  case (Cons p ps)
  show ?case
  proof (cases j)
    case 0
    have "\<And>l. l < length ps \<Longrightarrow> segment_key nm i \<noteq> segment_key nm (Suc i + l)"
      using segment_key_inj by fastforce
    from foldl_pieces_other[OF this, of ps f "proj0(segment_key nm i \<mapsto> f p)"]
    have "foldl (\<lambda>proj (piece_n, piece). proj(segment_key nm piece_n \<mapsto> f piece))
            (proj0(segment_key nm i \<mapsto> f p)) (enumerate (Suc i) ps) (segment_key nm i)
          = Some (f p)"
      by simp
    with 0 show ?thesis by (simp only: enumerate_simps foldl.simps prod.case nth_Cons_0 add_0_right)
  next
    case (Suc j')
    with Cons.prems have "j' < length ps" by simp
    from Cons.IH[OF this, of _ "Suc i"] Suc show ?thesis by simp
  qed
qed

lemma project_pieces_nth:
  "n < length pieces \<Longrightarrow>
   project_pieces vd self nm projected pieces (segment_key nm n)
     = Some (P3toP2 self (points vd (join_reset vd (pieces ! n))))"
  unfolding project_pieces_def using foldl_pieces_nth[of n pieces nm _ projected 0] by simp

lemma project_pieces_other:
  "(\<And>n. n < length pieces \<Longrightarrow> key \<noteq> segment_key nm n) \<Longrightarrow>
   project_pieces vd self nm projected pieces key = projected key"
  unfolding project_pieces_def using foldl_pieces_other[of pieces key nm 0] by simp

text \<open>The loop body, and the whole loop, key by key.\<close>

lemma project_actor_skip:
  "points vd (actor_intersection vd self a) = [] \<Longrightarrow> project_actor vd self projected a = projected"
  by (simp add: project_actor_def)

lemma project_actor_cut:
  "points vd (actor_intersection vd self a) \<noteq> [] \<Longrightarrow>
   project_actor vd self projected a =
     project_pieces vd self (name a) projected (splitByConnectivity vd (actor_intersection vd self a))"
  by (simp add: project_actor_def)

lemma project_actor_Some:
  assumes "project_actor vd self projected a key = Some val"
  shows "projected key = Some val \<or>
         (points vd (actor_intersection vd self a) \<noteq> [] \<and>
          (\<exists>n < length (splitByConnectivity vd (actor_intersection vd self a)).
             key = segment_key (name a) n \<and>
             val = P3toP2 self (points vd (join_reset vd
                     (splitByConnectivity vd (actor_intersection vd self a) ! n)))))"
proof (cases "points vd (actor_intersection vd self a) = []")
  case True
  with assms show ?thesis by (simp add: project_actor_skip)
next
  case False
  let ?ps = "splitByConnectivity vd (actor_intersection vd self a)"
  show ?thesis
  proof (cases "\<exists>n < length ?ps. key = segment_key (name a) n")
    case True
    then obtain n where n: "n < length ?ps" "key = segment_key (name a) n" by blast
    with assms False have "val = P3toP2 self (points vd (join_reset vd (?ps ! n)))"
      by (simp add: project_actor_cut project_pieces_nth)
    with n False show ?thesis by blast
  next
    case nokey: False
    then have "project_pieces vd self (name a) projected ?ps key = projected key"
      by (intro project_pieces_other) blast
    with assms False show ?thesis by (simp add: project_actor_cut)
  qed
qed

lemma foldl_project_actor_Some:
  "foldl (project_actor vd self) projected actors key = Some val \<Longrightarrow>
   projected key = Some val \<or>
   (\<exists>a \<in> set actors. points vd (actor_intersection vd self a) \<noteq> [] \<and>
      (\<exists>n < length (splitByConnectivity vd (actor_intersection vd self a)).
         key = segment_key (name a) n \<and>
         val = P3toP2 self (points vd (join_reset vd
                 (splitByConnectivity vd (actor_intersection vd self a) ! n)))))"
proof (induction actors arbitrary: projected)
  case Nil
  then show ?case by simp
next
  case (Cons a actors)
  from Cons.prems have "foldl (project_actor vd self) (project_actor vd self projected a) actors key = Some val"
    by simp
  from Cons.IH[OF this] show ?case
  proof
    assume "project_actor vd self projected a key = Some val"
    from project_actor_Some[OF this] show ?thesis by auto
  next
    assume "\<exists>a \<in> set actors. points vd (actor_intersection vd self a) \<noteq> [] \<and>
      (\<exists>n < length (splitByConnectivity vd (actor_intersection vd self a)).
         key = segment_key (name a) n \<and>
         val = P3toP2 self (points vd (join_reset vd
                 (splitByConnectivity vd (actor_intersection vd self a) ! n))))"
    then show ?thesis by auto
  qed
qed

lemma project_actor_other_name:
  assumes "name a = nm \<longrightarrow> points vd (actor_intersection vd self a) = []"
  shows "project_actor vd self projected a (segment_key nm n) = projected (segment_key nm n)"
proof (cases "points vd (actor_intersection vd self a) = []")
  case True
  then show ?thesis by (simp add: project_actor_skip)
next
  case False
  with assms have "name a \<noteq> nm" by blast
  then have "\<And>k. segment_key nm n \<noteq> segment_key (name a) k"
    using segment_key_inj by blast
  then show ?thesis using False
    by (simp add: project_actor_cut project_pieces_other)
qed

lemma foldl_project_actor_other_names:
  "(\<forall>b \<in> set actors. name b = nm \<longrightarrow> points vd (actor_intersection vd self b) = []) \<Longrightarrow>
   foldl (project_actor vd self) projected actors (segment_key nm n) = projected (segment_key nm n)"
  by (induction actors arbitrary: projected) (simp_all add: project_actor_other_name)

lemma get_projections_Some:
  "get_projections vd self actors key = Some val \<Longrightarrow>
   \<exists>a \<in> set actors. points vd (actor_intersection vd self a) \<noteq> [] \<and>
      (\<exists>n < length (splitByConnectivity vd (actor_intersection vd self a)).
         key = segment_key (name a) n \<and>
         val = P3toP2 self (points vd (join_reset vd
                 (splitByConnectivity vd (actor_intersection vd self a) ! n))))"
  unfolding get_projections_def using foldl_project_actor_Some[of vd self Map.empty actors key val]
  by simp

lemma get_projections_skip:
  "points vd (actor_intersection vd self a) = [] \<Longrightarrow>
   get_projections vd self (xs @ a # ys) = get_projections vd self (xs @ ys)"
  by (simp add: get_projections_def project_actor_skip)

section \<open>The example provider\<close>

lemma xy_plane_from_norm: "from_norm (0, 0, 0) (0, 0, 1) = Inr xy_plane"
  by (simp add: from_norm_def upt_rec Let_def np_zeros3_def Plane_init_def np_isclose_def xy_plane_def)

lemmas polyline_eval =
  get_projections_def project_actor_def project_pieces_def actor_intersection_def
  intersectWith_def intersect_with_plane_def segment_key_def str_nat_digit P3toP2_def
  polyline_vedo_def polyline_actor_def xy_plane_def Let_def

lemmas last_first_eval =
  get_projections_def project_actor_def project_pieces_def actor_intersection_def
  intersectWith_def intersect_with_plane_def segment_key_def str_nat_digit P3toP2_def
  last_first_vedo_def polyline_actor_def xy_plane_def Let_def

section \<open>Claims about \<open>get_projections\<close>\<close>

text \<open>
  Claim C6 says that for a mesh whose intersection has no points, no key with that mesh's
  name appears in the output. The output is keyed by actor name and piece index only, so
  a second actor of the same name that does meet the plane puts keys with that name into
  it: of two actors named \<open>root\<close>, the first above the plane and the second in it, the
  first has an empty intersection and the output has the key \<open>root_segment_0\<close>.
\<close>

theorem same_name_actor_keys_appear:
  "points polyline_vedo
     (actor_intersection polyline_vedo xy_plane (polyline_actor ''root'' [[(0, 0, 1), (1, 0, 1)]])) = []
   \<and> get_projections polyline_vedo xy_plane
        [polyline_actor ''root'' [[(0, 0, 1), (1, 0, 1)]],
         polyline_actor ''root'' [[(0, 0, 0), (1, 0, 0)]]] ''root_segment_0''
      = Some [(0, 0), (1, 0)]"
  by (simp add: polyline_eval)

text \<open>
  Claim C6, amended: an actor whose intersection has no points is skipped. The loop body
  returns the mapping unchanged (nothing is stored for it, hence no empty entry, and the
  body has no failing branch), the output is the one the call gives without that actor,
  and no key with its name is in the output unless another actor of the same name has a
  non-empty intersection.
\<close>

theorem get_projections_skips_empty_intersection:
  assumes "points vd (actor_intersection vd self a) = []"
  shows "project_actor vd self projected a = projected
       \<and> get_projections vd self (xs @ a # ys) = get_projections vd self (xs @ ys)
       \<and> ((\<forall>b \<in> set (xs @ ys). name b = name a \<longrightarrow> points vd (actor_intersection vd self b) = [])
            \<longrightarrow> (\<forall>n. get_projections vd self (xs @ a # ys) (segment_key (name a) n) = None))"
proof -
  have "get_projections vd self (xs @ a # ys) (segment_key (name a) n) = None"
    if h: "\<forall>b \<in> set (xs @ ys). name b = name a \<longrightarrow> points vd (actor_intersection vd self b) = []"
    for n
  proof (rule ccontr)
    assume "get_projections vd self (xs @ a # ys) (segment_key (name a) n) \<noteq> None"
    then obtain val where "get_projections vd self (xs @ ys) (segment_key (name a) n) = Some val"
      using get_projections_skip[OF assms] by fastforce
    from get_projections_Some[OF this] obtain b k where
      b: "b \<in> set (xs @ ys)" "points vd (actor_intersection vd self b) \<noteq> []"
        "segment_key (name a) n = segment_key (name b) k"
      by blast
    from segment_key_inj[OF b(3)] have "name b = name a" by simp
    with h b(1,2) show False by blast
  qed
  with assms show ?thesis
    by (simp add: project_actor_skip get_projections_skip)
qed

text \<open>An actor \<open>root\<close> above the plane, followed by an actor \<open>CA1\<close> in it.\<close>

theorem get_projections_skips_empty_intersection_witness:
  "points polyline_vedo
     (actor_intersection polyline_vedo xy_plane (polyline_actor ''root'' [[(0, 0, 1), (1, 0, 1)]])) = []
   \<and> get_projections polyline_vedo xy_plane
        [polyline_actor ''root'' [[(0, 0, 1), (1, 0, 1)]], polyline_actor ''CA1'' [[(0, 0, 0), (1, 0, 0)]]]
     = get_projections polyline_vedo xy_plane [polyline_actor ''CA1'' [[(0, 0, 0), (1, 0, 0)]]]
   \<and> (\<forall>n. get_projections polyline_vedo xy_plane
        [polyline_actor ''root'' [[(0, 0, 1), (1, 0, 1)]], polyline_actor ''CA1'' [[(0, 0, 0), (1, 0, 0)]]]
        (segment_key ''root'' n) = None)"
proof -
  let ?root = "polyline_actor ''root'' [[(0, 0, 1), (1, 0, 1)]]"
  let ?ca1 = "polyline_actor ''CA1'' [[(0, 0, 0), (1, 0, 0)]]"
  have e: "points polyline_vedo (actor_intersection polyline_vedo xy_plane ?root) = []"
    by (simp add: polyline_eval)
  have h: "\<forall>b \<in> set [?ca1]. name b = ''root'' \<longrightarrow>
             points polyline_vedo (actor_intersection polyline_vedo xy_plane b) = []"
    by (simp add: polyline_actor_def)
  have k: "name ?root = ''root''"
    by (simp add: polyline_actor_def)
  note t = get_projections_skips_empty_intersection[OF e, of _ "[]" "[?ca1]", simplified append_Nil k]
  from t h e show ?thesis by blast
qed

text \<open>
  Claim C7 says that the index \<open>n\<close> in a key is the position of the piece in the order
  in which the intersection routine found the pieces. The code numbers the pieces by
  their position in the list \<open>splitByConnectivity\<close> returns and that list's order is
  the provider's: with a split that lists the pieces last found first, the cutter's output
  has the two-point polyline before the single point, and \<open>CA1_segment_0\<close> is the
  single point, \<open>CA1_segment_1\<close> the two-point polyline.
\<close>

theorem pieces_numbered_in_split_order:
  "cutter_output last_first_vedo [[(0, 0, 0), (1, 0, 0)], [(5, 5, 0)]] (0, 0, 0) (0, 0, 1)
     = [[(0, 0, 0), (1, 0, 0)], [(5, 5, 0)]]
   \<and> get_projections last_first_vedo xy_plane
        [polyline_actor ''CA1'' [[(0, 0, 0), (1, 0, 0)], [(5, 5, 0)]]] ''CA1_segment_0''
      = Some [(5, 5)]
   \<and> get_projections last_first_vedo xy_plane
        [polyline_actor ''CA1'' [[(0, 0, 0), (1, 0, 0)], [(5, 5, 0)]]] ''CA1_segment_1''
      = Some [(0, 0), (1, 0)]"
  by (simp add: last_first_eval)

text \<open>
  Claim C7, amended: every entry of the output has a key \<open>name_segment_n\<close>, where
  \<open>name\<close> is the name of one of the actors and \<open>n\<close>, written in decimal, is a position,
  counted from 0, in the list of pieces that \<open>splitByConnectivity\<close> returned for that
  actor's intersection, and the entry's value is the projection of the joined piece at
  that position; conversely the piece at position \<open>k\<close> of that list is stored under
  \<open>name_segment_k\<close>, and stands in the output unless a later actor of the same name
  has a non-empty intersection. \<open>get_projections\<close> neither sorts nor reorders the
  list; its order is the one the split gives it.
\<close>

theorem get_projections_keys:
  "(get_projections vd self actors key = Some val \<longrightarrow>
      (\<exists>a \<in> set actors.
         \<exists>n < length (splitByConnectivity vd (actor_intersection vd self a)).
           key = name a @ ''_segment_'' @ str_nat n \<and>
           val = P3toP2 self (points vd (join_reset vd
                   (splitByConnectivity vd (actor_intersection vd self a) ! n)))))
   \<and> (points vd (actor_intersection vd self b) \<noteq> []
        \<and> k < length (splitByConnectivity vd (actor_intersection vd self b))
        \<and> (\<forall>c \<in> set ys. name c = name b \<longrightarrow> points vd (actor_intersection vd self c) = [])
      \<longrightarrow> get_projections vd self (xs @ b # ys) (name b @ ''_segment_'' @ str_nat k)
            = Some (P3toP2 self (points vd (join_reset vd
                      (splitByConnectivity vd (actor_intersection vd self b) ! k)))))"
proof -
  have "get_projections vd self (xs @ b # ys) (segment_key (name b) k)
            = Some (P3toP2 self (points vd (join_reset vd
                      (splitByConnectivity vd (actor_intersection vd self b) ! k))))"
    if p: "points vd (actor_intersection vd self b) \<noteq> []"
      and k: "k < length (splitByConnectivity vd (actor_intersection vd self b))"
      and o: "\<forall>c \<in> set ys. name c = name b \<longrightarrow> points vd (actor_intersection vd self c) = []"
  proof -
    have "project_actor vd self pr b (segment_key (name b) k)
           = Some (P3toP2 self (points vd (join_reset vd
                      (splitByConnectivity vd (actor_intersection vd self b) ! k))))" for pr
      using p k by (simp add: project_actor_cut project_pieces_nth)
    with foldl_project_actor_other_names[OF o] show ?thesis
      by (simp add: get_projections_def)
  qed
  moreover have "\<exists>a \<in> set actors.
         \<exists>n < length (splitByConnectivity vd (actor_intersection vd self a)).
           key = segment_key (name a) n \<and>
           val = P3toP2 self (points vd (join_reset vd
                   (splitByConnectivity vd (actor_intersection vd self a) ! n)))"
    if "get_projections vd self actors key = Some val"
    using get_projections_Some[OF that] by blast
  ultimately show ?thesis unfolding segment_key_def by blast
qed

text \<open>
  Three polylines, the second off the plane: the cut has two pieces, the entry
  \<open>CA1_segment_1\<close> is the second of them and \<open>CA1_segment_0\<close> the first.
\<close>

theorem get_projections_keys_witness:
  "get_projections polyline_vedo xy_plane
     [polyline_actor ''CA1'' [[(5, 5, 0)], [(0, 0, 1)], [(0, 0, 0), (1, 2, 0)]]] ''CA1_segment_1''
     = Some [(0, 0), (1, 2)]
   \<and> (\<exists>a \<in> set [polyline_actor ''CA1'' [[(5, 5, 0)], [(0, 0, 1)], [(0, 0, 0), (1, 2, 0)]]].
        \<exists>n < length (splitByConnectivity polyline_vedo (actor_intersection polyline_vedo xy_plane a)).
          ''CA1_segment_1'' = name a @ ''_segment_'' @ str_nat n \<and>
          [(0, 0), (1, 2)] = P3toP2 xy_plane (points polyline_vedo (join_reset polyline_vedo
                     (splitByConnectivity polyline_vedo (actor_intersection polyline_vedo xy_plane a) ! n))))
   \<and> get_projections polyline_vedo xy_plane
     [polyline_actor ''CA1'' [[(5, 5, 0)], [(0, 0, 1)], [(0, 0, 0), (1, 2, 0)]]] ''CA1_segment_0''
     = Some [(5, 5)]"
proof -
  let ?a = "polyline_actor ''CA1'' [[(5, 5, 0)], [(0, 0, 1)], [(0, 0, 0), (1, 2, 0)]]"
  have e: "get_projections polyline_vedo xy_plane [?a] ''CA1_segment_1'' = Some [(0, 0), (1, 2)]"
    by (simp add: polyline_eval)
  have h: "points polyline_vedo (actor_intersection polyline_vedo xy_plane ?a) \<noteq> []
        \<and> 0 < length (splitByConnectivity polyline_vedo (actor_intersection polyline_vedo xy_plane ?a))
        \<and> (\<forall>c \<in> set []. name c = name ?a \<longrightarrow>
              points polyline_vedo (actor_intersection polyline_vedo xy_plane c) = [])"
    by (simp add: polyline_eval)
  have k: "name ?a @ ''_segment_'' @ str_nat 0 = ''CA1_segment_0''"
    by (simp add: polyline_actor_def str_nat_digit)
  have v: "P3toP2 xy_plane (points polyline_vedo (join_reset polyline_vedo
             (splitByConnectivity polyline_vedo (actor_intersection polyline_vedo xy_plane ?a) ! 0)))
           = [(5, 5)]"
    by (simp add: polyline_eval)
  from get_projections_keys[THEN conjunct2, rule_format, OF h, of "[]"]
  have "get_projections polyline_vedo xy_plane [?a] ''CA1_segment_0'' = Some [(5, 5)]"
    unfolding k v by simp
  with get_projections_keys[THEN conjunct1, rule_format, OF e] e show ?thesis by blast
qed

text \<open>
  Claim C9: the mesh that \<open>get_projections\<close> cuts for an actor is \<open>actor._mesh\<close> when
  the actor has one and \<open>actor.mesh\<close> otherwise. For a last actor with \<open>_mesh = m\<close> the
  output is the output for the actors before it with the pieces of the cut of \<open>m\<close>
  stored on top, and unchanged when that cut has no points; without \<open>_mesh\<close> the same
  holds of the cut of \<open>mesh\<close>. With \<open>_mesh\<close> present, piece \<open>k\<close> of the cut of \<open>m\<close>
  is the entry \<open>name_segment_k\<close>, the output is the same for every value of \<open>mesh\<close>,
  and it is the same whatever the cutter would return for \<open>mesh\<close>: the original mesh is
  not given to the cutter.
\<close>

theorem get_projections_prefers_umesh:
  "get_projections vd self (xs @ [\<lparr> name = nm, mesh = m0, umesh = Some m, bounds = b \<rparr>])
     = (if points vd (cutter_output vd m (self_center self) (self_normal self)) = []
        then get_projections vd self xs
        else project_pieces vd self nm (get_projections vd self xs)
               (splitByConnectivity vd (cutter_output vd m (self_center self) (self_normal self))))
   \<and> get_projections vd self (xs @ [\<lparr> name = nm, mesh = m0, umesh = None, bounds = b \<rparr>])
     = (if points vd (cutter_output vd m0 (self_center self) (self_normal self)) = []
        then get_projections vd self xs
        else project_pieces vd self nm (get_projections vd self xs)
               (splitByConnectivity vd (cutter_output vd m0 (self_center self) (self_normal self))))
   \<and> get_projections vd self (xs @ \<lparr> name = nm, mesh = m0, umesh = Some m, bounds = b \<rparr> # ys)
     = get_projections vd self (xs @ \<lparr> name = nm, mesh = m1, umesh = Some m, bounds = b \<rparr> # ys)
   \<and> (points vd (cutter_output vd m (self_center self) (self_normal self)) \<noteq> []
        \<and> k < length (splitByConnectivity vd (cutter_output vd m (self_center self) (self_normal self)))
      \<longrightarrow> get_projections vd self (xs @ [\<lparr> name = nm, mesh = m0, umesh = Some m, bounds = b \<rparr>])
              (segment_key nm k)
            = Some (P3toP2 self (points vd (join_reset vd
                (splitByConnectivity vd (cutter_output vd m (self_center self) (self_normal self)) ! k)))))
   \<and> (m0 \<noteq> m
      \<longrightarrow> get_projections
              (vd\<lparr> cutter_output := \<lambda>msh origin normal.
                     if msh = m0 then other origin normal else cutter_output vd msh origin normal \<rparr>)
              self [\<lparr> name = nm, mesh = m0, umesh = Some m, bounds = b \<rparr>]
            = get_projections vd self [\<lparr> name = nm, mesh = m0, umesh = Some m, bounds = b \<rparr>])"
proof -
  let ?a = "\<lparr> name = nm, mesh = m0, umesh = Some m, bounds = b \<rparr>"
  let ?cut = "cutter_output vd m (self_center self) (self_normal self)"
  have i: "actor_intersection vd self ?a = ?cut"
    by (simp add: actor_intersection_def intersectWith_def intersect_with_plane_def)
  have 1: "get_projections vd self (xs @ [?a])
     = (if points vd ?cut = [] then get_projections vd self xs
        else project_pieces vd self nm (get_projections vd self xs) (splitByConnectivity vd ?cut))"
    by (simp add: get_projections_def project_actor_def i)
  have 2: "get_projections vd self (xs @ [\<lparr> name = nm, mesh = m0, umesh = None, bounds = b \<rparr>])
     = (if points vd (cutter_output vd m0 (self_center self) (self_normal self)) = []
        then get_projections vd self xs
        else project_pieces vd self nm (get_projections vd self xs)
               (splitByConnectivity vd (cutter_output vd m0 (self_center self) (self_normal self))))"
    by (simp add: get_projections_def project_actor_def actor_intersection_def
          intersectWith_def intersect_with_plane_def)
  have 3: "get_projections vd self (xs @ ?a # ys)
     = get_projections vd self (xs @ \<lparr> name = nm, mesh = m1, umesh = Some m, bounds = b \<rparr> # ys)"
    by (simp add: actor_intersection_def intersectWith_def intersect_with_plane_def
        get_projections_def project_actor_def Let_def)
  have 4: "get_projections vd self (xs @ [?a]) (segment_key nm k)
            = Some (P3toP2 self (points vd (join_reset vd (splitByConnectivity vd ?cut ! k))))"
    if "points vd ?cut \<noteq> [] \<and> k < length (splitByConnectivity vd ?cut)"
    using that unfolding 1 by (simp add: project_pieces_nth)
  have 5: "get_projections
              (vd\<lparr> cutter_output := \<lambda>msh origin normal.
                     if msh = m0 then other origin normal else cutter_output vd msh origin normal \<rparr>)
              self [?a]
            = get_projections vd self [?a]" if "m0 \<noteq> m"
    using that
    by (simp add: get_projections_def project_actor_def actor_intersection_def
          intersectWith_def intersect_with_plane_def project_pieces_def Let_def)
  from 1 2 3 4 5 show ?thesis by blast
qed

text \<open>
  An actor whose \<open>_mesh\<close> and \<open>mesh\<close> both lie in the plane: the entry is the cut of
  \<open>_mesh\<close>, also with a cutter that answers differently on \<open>mesh\<close>; without \<open>_mesh\<close>
  it is the cut of \<open>mesh\<close>.
\<close>

theorem get_projections_prefers_umesh_witness:
  "get_projections polyline_vedo xy_plane
     [\<lparr> name = ''CA1'', mesh = [[(9, 9, 0)]], umesh = Some [[(5, 0, 0), (7, 0, 0)]],
        bounds = (0, 1, 0, 1, 0, 1) \<rparr>] ''CA1_segment_0''
     = Some [(5, 0), (7, 0)]
   \<and> get_projections
       (polyline_vedo\<lparr> cutter_output := \<lambda>msh origin normal.
          if msh = [[(9, 9, 0)]] then [[(1, 1, 0)]]
          else cutter_output polyline_vedo msh origin normal \<rparr>) xy_plane
     [\<lparr> name = ''CA1'', mesh = [[(9, 9, 0)]], umesh = Some [[(5, 0, 0), (7, 0, 0)]],
        bounds = (0, 1, 0, 1, 0, 1) \<rparr>] ''CA1_segment_0''
     = Some [(5, 0), (7, 0)]
   \<and> get_projections polyline_vedo xy_plane
     [\<lparr> name = ''CA1'', mesh = [[(9, 9, 0)]], umesh = None,
        bounds = (0, 1, 0, 1, 0, 1) \<rparr>] ''CA1_segment_0''
     = Some [(9, 9)]"
proof -
  let ?cutm = "[[(5, 0, 0), (7, 0, 0)]] :: vec3 list list"
  let ?orig = "[[(9, 9, 0)]] :: vec3 list list"
  have c: "cutter_output polyline_vedo ?cutm (self_center xy_plane) (self_normal xy_plane) = ?cutm"
    by (simp add: polyline_vedo_def xy_plane_def)
  have p: "points polyline_vedo ?cutm \<noteq> []" and s: "splitByConnectivity polyline_vedo ?cutm = [?cutm]"
    and j: "points polyline_vedo (join_reset polyline_vedo ?cutm) = [(5, 0, 0), (7, 0, 0)]"
    by (simp_all add: polyline_vedo_def)
  have k: "segment_key ''CA1'' 0 = ''CA1_segment_0''"
    by (simp add: segment_key_def str_nat_digit)
  have d: "?orig \<noteq> ?cutm" by simp
  note t = get_projections_prefers_umesh[of polyline_vedo xy_plane "[]" "''CA1''" ?orig ?cutm
      "(0, 1, 0, 1, 0, 1)" _ _ 0 "\<lambda>origin normal. [[(1, 1, 0)]]"]
  from t[THEN conjunct2, THEN conjunct2, THEN conjunct2, THEN conjunct1]
  have 1: "get_projections polyline_vedo xy_plane
     [\<lparr> name = ''CA1'', mesh = ?orig, umesh = Some ?cutm, bounds = (0, 1, 0, 1, 0, 1) \<rparr>]
     ''CA1_segment_0'' = Some [(5, 0), (7, 0)]"
    unfolding c k using p s j by (simp add: P3toP2_def xy_plane_def)
  from t[THEN conjunct2, THEN conjunct2, THEN conjunct2, THEN conjunct2, rule_format, OF d] 1
  have 2: "get_projections
       (polyline_vedo\<lparr> cutter_output := \<lambda>msh origin normal.
          if msh = ?orig then [[(1, 1, 0)]]
          else cutter_output polyline_vedo msh origin normal \<rparr>) xy_plane
     [\<lparr> name = ''CA1'', mesh = ?orig, umesh = Some ?cutm, bounds = (0, 1, 0, 1, 0, 1) \<rparr>]
     ''CA1_segment_0'' = Some [(5, 0), (7, 0)]"
    by simp
  have 3: "get_projections polyline_vedo xy_plane
     [\<lparr> name = ''CA1'', mesh = ?orig, umesh = None, bounds = (0, 1, 0, 1, 0, 1) \<rparr>]
     ''CA1_segment_0'' = Some [(9, 9)]"
    by (simp add: polyline_eval)
  from 1 2 3 show ?thesis by blast
qed

text \<open>
  Claim C10: there is no filter on the size of a piece. For an actor whose intersection
  has points, the loop body stores every piece of the split, each under its own key, with
  as many projected points as the joined piece has points, a single one for a single-point
  piece; the entry is in the output unless a later actor of the same name with a non-empty
  intersection stores its own piece under that key.
\<close>

theorem get_projections_keeps_every_piece:
  assumes "points vd (actor_intersection vd self a) \<noteq> []"
    and "pieces = splitByConnectivity vd (actor_intersection vd self a)"
    and "n < length pieces"
  shows "project_actor vd self projected a (segment_key (name a) n)
           = Some (P3toP2 self (points vd (join_reset vd (pieces ! n))))
       \<and> length (P3toP2 self (points vd (join_reset vd (pieces ! n))))
           = length (points vd (join_reset vd (pieces ! n)))
       \<and> ((\<forall>b \<in> set ys. name b = name a \<longrightarrow> points vd (actor_intersection vd self b) = [])
            \<longrightarrow> get_projections vd self (xs @ a # ys) (segment_key (name a) n)
                  = Some (P3toP2 self (points vd (join_reset vd (pieces ! n)))))"
proof -
  have s: "project_actor vd self pr a (segment_key (name a) n)
           = Some (P3toP2 self (points vd (join_reset vd (pieces ! n))))" for pr
    using assms by (simp add: project_actor_cut project_pieces_nth)
  have "get_projections vd self (xs @ a # ys) (segment_key (name a) n)
          = Some (P3toP2 self (points vd (join_reset vd (pieces ! n))))"
    if "\<forall>b \<in> set ys. name b = name a \<longrightarrow> points vd (actor_intersection vd self b) = []"
    using foldl_project_actor_other_names[OF that] s
    by (simp add: get_projections_def)
  with s show ?thesis by (simp add: P3toP2_def)
qed

text \<open>A cut with a two-point piece and a single-point piece; the single point is kept.\<close>

theorem get_projections_keeps_every_piece_witness:
  "get_projections polyline_vedo xy_plane
     [polyline_actor ''CA1'' [[(0, 0, 0), (1, 2, 0)], [(5, 5, 0)]], polyline_actor ''root'' [[(1, 1, 0)]]]
     ''CA1_segment_1'' = Some [(5, 5)]"
proof -
  let ?a = "polyline_actor ''CA1'' [[(0, 0, 0), (1, 2, 0)], [(5, 5, 0)]]"
  have p: "points polyline_vedo (actor_intersection polyline_vedo xy_plane ?a) \<noteq> []"
    by (simp add: polyline_eval)
  have s: "splitByConnectivity polyline_vedo (actor_intersection polyline_vedo xy_plane ?a)
             = [[[(0, 0, 0), (1, 2, 0)]], [[(5, 5, 0)]]]"
    by (simp add: polyline_eval)
  have k: "segment_key (name ?a) 1 = ''CA1_segment_1''"
    by (simp add: segment_key_def str_nat_digit polyline_actor_def)
  have o: "\<forall>b \<in> set [polyline_actor ''root'' [[(1, 1, 0)]]]. name b = name ?a \<longrightarrow>
             points polyline_vedo (actor_intersection polyline_vedo xy_plane b) = []"
    by (simp add: polyline_actor_def)
  from get_projections_keeps_every_piece[OF p s[symmetric], of 1 _ "[polyline_actor ''root'' [[(1, 1, 0)]]]" "[]"] o
  show ?thesis unfolding k by (simp add: P3toP2_def polyline_vedo_def xy_plane_def)
qed

end
